theory Spec2Isabelle
  imports Main "HOL-Library.Word"
begin

section \<open>Machine types and error numbers\<close>

text \<open>
  The drivers are C code of the kernel. \<open>unsigned long\<close> is modelled as a 64-bit word
  (an LP64 kernel), \<open>unsigned int\<close> and \<open>u32\<close> as 32-bit words, \<open>uint8_t\<close> as an 8-bit
  word. Every frequency of the tables is below \<open>2 ^ 18\<close>, so nothing below depends on
  the width of \<open>unsigned long\<close> beyond its being at least 32 bits. An \<open>int\<close> status
  (0 or a negated error number) is a HOL integer: the values are tiny.
\<close>

type_synonym ulong = "64 word"
type_synonym uint = "32 word"
type_synonym u8 = "8 word"

definition ENOENT :: int where "ENOENT = 2"
definition EIO :: int where "EIO = 5"
definition ENOMEM :: int where "ENOMEM = 12"
definition ENODEV :: int where "ENODEV = 19"
definition EINVAL :: int where "EINVAL = 22"
definition EPROBE_DEFER :: int where "EPROBE_DEFER = 517"

section \<open>The clock driver: drivers/clk/clk-xclockdac.c\<close>

definition DEFAULT_RATE :: ulong where "DEFAULT_RATE = 44100"
definition SMBUS_DAC_SET :: uint where "SMBUS_DAC_SET = 0x2F"

text \<open>
  \<open>struct xclockdac_rate\<close>. The field \<open>reg_value\<close> of a table entry is named
  \<open>entry_reg_value\<close> here, since the driver data has a field \<open>reg_value\<close> too.
\<close>

record xclockdac_rate =
  out :: ulong
  entry_reg_value :: u8

text \<open>The table, with its terminating sentinel \<open>{}\<close> (all fields zero).\<close>

definition xclockdac_rates :: "xclockdac_rate list" where
  "xclockdac_rates =
    [\<lparr>out = 11025, entry_reg_value = 0x04\<rparr>, \<lparr>out = 22050, entry_reg_value = 0x0C\<rparr>,
     \<lparr>out = 44100, entry_reg_value = 0x03\<rparr>, \<lparr>out = 48000, entry_reg_value = 0x0B\<rparr>,
     \<lparr>out = 88200, entry_reg_value = 0x02\<rparr>, \<lparr>out = 96000, entry_reg_value = 0x0A\<rparr>,
     \<lparr>out = 176400, entry_reg_value = 0x01\<rparr>, \<lparr>out = 192000, entry_reg_value = 0x09\<rparr>,
     \<lparr>out = 0, entry_reg_value = 0\<rparr>]"

text \<open>
  \<open>struct clk_xclockdac_drvdata\<close>: the register map handle and the cached register
  value. The handle is the state of the transport behind it, of any type \<open>'b\<close>; the
  \<open>clk\<close>, \<open>client\<close> and \<open>hw\<close> pointers carry no data the operations read.
\<close>

record 'b clk_xclockdac_drvdata =
  regmap :: 'b
  reg_value :: uint

text \<open>
  \<open>xclockdac_write_reg\<close>. The transport's \<open>regmap_write\<close> is a parameter: it takes
  the register, the value and the transport state, and returns its status and the new
  state. The cached value is assigned before the transport is called.
\<close>

definition xclockdac_write_reg ::
  "(uint \<Rightarrow> uint \<Rightarrow> 'b \<Rightarrow> int \<times> 'b) \<Rightarrow> 'b clk_xclockdac_drvdata \<Rightarrow> u8
    \<Rightarrow> int \<times> 'b clk_xclockdac_drvdata" where
  "xclockdac_write_reg regmap_write drvdata v =
    (let drvdata1 = drvdata\<lparr>reg_value := ucast v\<rparr>;
         (ret, rm) = regmap_write SMBUS_DAC_SET (ucast v) (regmap drvdata1)
     in (if ret < 0 then ret else 0, drvdata1\<lparr>regmap := rm\<rparr>))"

text \<open>
  The loop of \<open>xclockdac_set_rate\<close>: the entry at which
  \<open>for (entry = xclockdac_rates; entry->out != 0; entry++) if (entry->out == rate) break;\<close>
  stops, the matching entry or the sentinel. An array with no sentinel would be read
  past its end: \<open>None\<close>.
\<close>

fun set_rate_scan :: "xclockdac_rate list \<Rightarrow> ulong \<Rightarrow> xclockdac_rate option" where
  "set_rate_scan [] rate = None"
| "set_rate_scan (entry # rest) rate =
    (if out entry \<noteq> 0
     then (if out entry = rate then Some entry else set_rate_scan rest rate)
     else Some entry)"

definition xclockdac_set_rate ::
  "(uint \<Rightarrow> uint \<Rightarrow> 'b \<Rightarrow> int \<times> 'b) \<Rightarrow> 'b clk_xclockdac_drvdata \<Rightarrow> ulong \<Rightarrow> ulong
    \<Rightarrow> (int \<times> 'b clk_xclockdac_drvdata) option" where
  "xclockdac_set_rate regmap_write drvdata rate parent_rate =
    (case set_rate_scan xclockdac_rates rate of
       None \<Rightarrow> None
     | Some entry \<Rightarrow>
         if out entry = 0 then Some (- EINVAL, drvdata)
         else Some (xclockdac_write_reg regmap_write drvdata (entry_reg_value entry)))"

text \<open>
  \<open>xclockdac_recalc_rate\<close>: \<open>uint8_t val = drvdata->reg_value\<close> keeps the low byte;
  the loop returns the frequency of the first entry with that code, and 0 at the
  sentinel.
\<close>

fun recalc_rate_scan :: "xclockdac_rate list \<Rightarrow> u8 \<Rightarrow> ulong option" where
  "recalc_rate_scan [] v = None"
| "recalc_rate_scan (entry # rest) v =
    (if out entry \<noteq> 0
     then (if v = entry_reg_value entry then Some (out entry) else recalc_rate_scan rest v)
     else Some 0)"

definition xclockdac_recalc_rate :: "'b clk_xclockdac_drvdata \<Rightarrow> ulong \<Rightarrow> ulong option" where
  "xclockdac_recalc_rate drvdata parent_rate =
    recalc_rate_scan xclockdac_rates (ucast (reg_value drvdata))"

text \<open>
  \<open>xclockdac_round_rate\<close>: the loop with its \<open>prev\<close> pointer (\<open>None\<close> is \<open>NULL\<close>)
  and its \<open>curr\<close> pointer, written \<open>cur\<close>.
  \<open>mid\<close> is an \<open>unsigned int\<close>: the sum is computed in \<open>unsigned long\<close>, truncated
  to 32 bits and widened again for the comparison with \<open>rate\<close>. Leaving the loop at
  the sentinel with \<open>prev = NULL\<close> would dereference \<open>NULL\<close>: \<open>None\<close>. The result is
  the \<open>long\<close> the function returns, as its bit pattern.
\<close>

fun round_rate_scan :: "xclockdac_rate option \<Rightarrow> xclockdac_rate list \<Rightarrow> ulong \<Rightarrow> ulong option" where
  "round_rate_scan prev [] rate = None"
| "round_rate_scan prev (cur # rest) rate =
    (if out cur \<noteq> 0 then
       (if out cur = rate then Some rate
        else if out cur > rate then
          (case prev of
             None \<Rightarrow> Some (out cur)
           | Some p \<Rightarrow>
               (let mid = (ucast (out p + ((out cur - out p) div 2)) :: uint)
                in Some (if ucast mid > rate then out p else out cur)))
        else round_rate_scan (Some cur) rest rate)
     else (case prev of None \<Rightarrow> None | Some p \<Rightarrow> Some (out p)))"

definition xclockdac_round_rate :: "ulong \<Rightarrow> ulong \<Rightarrow> ulong option" where
  "xclockdac_round_rate rate parent_rate = round_rate_scan None xclockdac_rates rate"

text \<open>
  The supported entries: the table up to its sentinel, and their frequencies and codes.
\<close>

definition rate_entries :: "xclockdac_rate list" where
  "rate_entries = takeWhile (\<lambda>e. out e \<noteq> 0) xclockdac_rates"

definition rate_frequencies :: "ulong list" where
  "rate_frequencies = map out rate_entries"

definition rate_codes :: "u8 list" where
  "rate_codes = map entry_reg_value rate_entries"

text \<open>
  \<open>xclockdac_i2c_probe\<close>. What the kernel services return is the environment of the
  probe: \<open>devm_kzalloc\<close> says whether the allocation succeeded; a service that
  returns a pointer gives \<open>Inr\<close> a valid object or \<open>Inl e\<close> for \<open>ERR_PTR(e)\<close>;
  \<open>regmap_read\<close> gives its status and the value it read; \<open>clk_set_rate\<close> is the
  clock framework's call, which may run the operations above on the driver data. The
  result is the returned status and the driver data of a successful probe (what a
  failed probe allocated is released with the device).
\<close>

record 'b i2c_probe_env =
  devm_kzalloc :: bool
  devm_clk_get :: "int + unit"
  devm_regmap_init_i2c :: "int + 'b"
  regmap_read :: "uint \<Rightarrow> 'b \<Rightarrow> int \<times> uint"
  devm_clk_register :: "int + unit"
  of_clk_add_provider :: int
  clk_set_rate :: "'b clk_xclockdac_drvdata \<Rightarrow> ulong \<Rightarrow> int \<times> 'b clk_xclockdac_drvdata"

definition xclockdac_i2c_probe ::
  "'b i2c_probe_env \<Rightarrow> int \<times> 'b clk_xclockdac_drvdata option" where
  "xclockdac_i2c_probe env =
    (if \<not> devm_kzalloc env then (- ENOMEM, None)
     else case devm_clk_get env of
       Inl e \<Rightarrow> (e, None)
     | Inr _ \<Rightarrow>
       (case devm_regmap_init_i2c env of
          Inl e \<Rightarrow> (e, None)
        | Inr rm \<Rightarrow>
          (let (ret, v) = regmap_read env SMBUS_DAC_SET rm in
           if ret < 0 then (ret, None)
           else
             (let drvdata = \<lparr>regmap = rm, reg_value = v\<rparr> in
              case devm_clk_register env of
                Inl e \<Rightarrow> (e, None)
              | Inr _ \<Rightarrow>
                (let ret = of_clk_add_provider env in
                 if ret \<noteq> 0 then (ret, None)
                 else
                   (let (ret, drvdata') = clk_set_rate env drvdata DEFAULT_RATE in
                    if ret \<noteq> 0 then (- EINVAL, None)
                    else (ret, Some drvdata')))))))"

text \<open>
  Modelled from the spec: the driver-management host is not under src/. A device is
  Attached when its attach returns success (status 0) and stays Detached when the
  attach surfaces an error.
\<close>

definition attached :: "int \<Rightarrow> bool" where
  "attached ret = (ret = 0)"

section \<open>The machine driver: sound/soc/bcm/xclockdac.c\<close>

text \<open>
  The rate list of the machine driver, \<open>xclockdac_rates\<close> in its file, is named
  \<open>snd_xclockdac_rates\<close> here: the clock driver's table has the same name.
\<close>

definition snd_xclockdac_rates :: "uint list" where
  "snd_xclockdac_rates = [11025, 22050, 44100, 48000, 88200, 96000, 176400, 192000]"

text \<open>\<open>struct snd_pcm_hw_constraint_list\<close>: the list and its \<open>count\<close> (the mask is 0).\<close>

record snd_pcm_hw_constraint_list =
  cl_list :: "uint list"
  cl_count :: nat

definition xclockdac_constraints :: snd_pcm_hw_constraint_list where
  "xclockdac_constraints =
    \<lparr>cl_list = snd_xclockdac_rates, cl_count = length snd_xclockdac_rates\<rparr>"

datatype snd_pcm_hw_param =
  SNDRV_PCM_HW_PARAM_SAMPLE_BITS | SNDRV_PCM_HW_PARAM_CHANNELS | SNDRV_PCM_HW_PARAM_RATE

text \<open>
  Modelled from the spec: the audio negotiation collaborator (the sound core's
  \<open>snd_pcm_hw_constraint_list\<close>) is not under src/. It accepts a constraint that
  restricts the acceptable values of a parameter to the first \<open>count\<close> values of a
  list; a value is negotiable when every constraint installed for the parameter
  accepts it.
\<close>

record snd_pcm_runtime =
  hw_rules :: "(snd_pcm_hw_param \<times> snd_pcm_hw_constraint_list) list"

definition snd_pcm_hw_constraint_list ::
  "snd_pcm_runtime \<Rightarrow> uint \<Rightarrow> snd_pcm_hw_param \<Rightarrow> snd_pcm_hw_constraint_list
    \<Rightarrow> int \<times> snd_pcm_runtime" where
  "snd_pcm_hw_constraint_list runtime cond var l =
    (0, runtime\<lparr>hw_rules := hw_rules runtime @ [(var, l)]\<rparr>)"

definition rule_accepts ::
  "snd_pcm_hw_param \<Rightarrow> uint \<Rightarrow> snd_pcm_hw_param \<times> snd_pcm_hw_constraint_list \<Rightarrow> bool" where
  "rule_accepts var v rule =
    (if fst rule = var then v \<in> set (take (cl_count (snd rule)) (cl_list (snd rule))) else True)"

definition negotiable :: "snd_pcm_runtime \<Rightarrow> snd_pcm_hw_param \<Rightarrow> uint \<Rightarrow> bool" where
  "negotiable runtime var v = list_all (rule_accepts var v) (hw_rules runtime)"

text \<open>
  \<open>snd_rpi_xclockdac_startup\<close>: installs the rate constraint, drops the status of
  the call and returns 0.
\<close>

definition snd_rpi_xclockdac_startup :: "snd_pcm_runtime \<Rightarrow> int \<times> snd_pcm_runtime" where
  "snd_rpi_xclockdac_startup runtime =
    (let (_, runtime') =
       snd_pcm_hw_constraint_list runtime 0 SNDRV_PCM_HW_PARAM_RATE xclockdac_constraints
     in (0, runtime'))"

text \<open>
  A C pointer that may be \<open>NULL\<close>, valid, or \<open>ERR_PTR(e)\<close>; \<open>drvdata.sclk\<close> of the
  machine driver is one, \<open>NULL\<close> in the zero-initialised static data.
\<close>

datatype 'c ptr = NULL | Ptr 'c | ERR_PTR int

fun IS_ERR :: "'c ptr \<Rightarrow> bool" where
  "IS_ERR (ERR_PTR e) = True"
| "IS_ERR _ = False"

text \<open>
  \<open>snd_rpi_xclockdac_probe\<close>. The environment: whether the platform device has a
  device-tree node, whether \<open>of_parse_phandle\<close> finds the \<open>i2s-controller\<close> node, the
  status of \<open>devm_snd_soc_register_card\<close>, the result of \<open>devm_clk_get(dev, NULL)\<close>
  and the clock framework's \<open>clk_set_rate\<close> on the clock behind a valid pointer
  (named \<open>snd_devm_clk_get\<close> and \<open>snd_clk_set_rate\<close> here; the framework does
  nothing for a \<open>NULL\<close> clock). The probe drops the status of \<open>clk_set_rate\<close>.
  The state is \<open>drvdata.sclk\<close>. The names the probe stores in the DAI link do not
  reach its result and are left out.
\<close>

record 'c snd_probe_env =
  of_node :: bool
  of_parse_phandle :: bool
  devm_snd_soc_register_card :: int
  snd_devm_clk_get :: "'c ptr"
  snd_clk_set_rate :: "'c \<Rightarrow> ulong \<Rightarrow> int \<times> 'c"

definition snd_rpi_xclockdac_probe :: "'c snd_probe_env \<Rightarrow> 'c ptr \<Rightarrow> int \<times> 'c ptr" where
  "snd_rpi_xclockdac_probe env sclk =
    (if of_node env \<and> \<not> of_parse_phandle env then (- EPROBE_DEFER, sclk)
     else
       (let ret = devm_snd_soc_register_card env in
        if ret \<noteq> 0 \<and> ret \<noteq> - EPROBE_DEFER then (ret, sclk)
        else if ret = - EPROBE_DEFER then (ret, sclk)
        else if \<not> of_node env then (- ENODEV, sclk)
        else
          (let sclk1 = snd_devm_clk_get env in
           if IS_ERR sclk1 then (- ENODEV, ERR_PTR (- ENOENT))
           else
             (case sclk1 of
                Ptr c \<Rightarrow> (let (_, c') = snd_clk_set_rate env c DEFAULT_RATE in (ret, Ptr c'))
              | _ \<Rightarrow> (ret, sclk1)))))"

section \<open>The codec driver: sound/soc/codecs/tda1541a.c\<close>

definition tda1541a_dai_rates :: "uint list" where
  "tda1541a_dai_rates = [11025, 22050, 44100, 48000, 88200, 96000, 176400, 192000]"

definition dai_constraints :: snd_pcm_hw_constraint_list where
  "dai_constraints = \<lparr>cl_list = tda1541a_dai_rates, cl_count = length tda1541a_dai_rates\<rparr>"

text \<open>
  \<open>struct tda1541a_private\<close> (its field \<open>rate\<close> is \<open>priv_rate\<close> here) and the two
  values \<open>tda1541a_hw_params\<close> reads from the hardware parameters:
  \<open>params_rate\<close>, an \<open>unsigned int\<close>, and \<open>params_width\<close>, an \<open>int\<close>.
\<close>

record tda1541a_private =
  priv_rate :: uint

record snd_pcm_hw_params =
  params_rate :: uint
  params_width :: int

definition tda1541a_hw_params ::
  "tda1541a_private \<Rightarrow> snd_pcm_hw_params \<Rightarrow> int \<times> tda1541a_private" where
  "tda1541a_hw_params priv params =
    (let priv1 = priv\<lparr>priv_rate := params_rate params\<rparr>
     in if params_width params = 16 then (0, priv1) else (- EINVAL, priv1))"

definition tda1541a_startup :: "snd_pcm_runtime \<Rightarrow> int \<times> snd_pcm_runtime" where
  "tda1541a_startup runtime =
    snd_pcm_hw_constraint_list runtime 0 SNDRV_PCM_HW_PARAM_RATE dai_constraints"

section \<open>The rate table\<close>

lemma rate_entries_eq:
  "rate_entries =
    [\<lparr>out = 11025, entry_reg_value = 0x04\<rparr>, \<lparr>out = 22050, entry_reg_value = 0x0C\<rparr>,
     \<lparr>out = 44100, entry_reg_value = 0x03\<rparr>, \<lparr>out = 48000, entry_reg_value = 0x0B\<rparr>,
     \<lparr>out = 88200, entry_reg_value = 0x02\<rparr>, \<lparr>out = 96000, entry_reg_value = 0x0A\<rparr>,
     \<lparr>out = 176400, entry_reg_value = 0x01\<rparr>, \<lparr>out = 192000, entry_reg_value = 0x09\<rparr>]"
  by (simp add: rate_entries_def xclockdac_rates_def)

lemma rate_frequencies_eq:
  "rate_frequencies = [11025, 22050, 44100, 48000, 88200, 96000, 176400, 192000]"
  by (simp add: rate_frequencies_def rate_entries_eq)

lemma rate_codes_eq: "rate_codes = [0x04, 0x0C, 0x03, 0x0B, 0x02, 0x0A, 0x01, 0x09]"
  by (simp add: rate_codes_def rate_entries_eq)

text \<open>
  Comparisons of words are read as comparisons of natural numbers, where linear
  arithmetic decides them.
\<close>

lemmas word_as_nat = word_less_nat_alt word_le_nat_alt word_unat_eq_iff

subsection \<open>The scans on the driver's table\<close>

lemma set_rate_scan_miss:
  "rate \<notin> set rate_frequencies \<Longrightarrow>
    set_rate_scan xclockdac_rates rate = Some \<lparr>out = 0, entry_reg_value = 0\<rparr>"
  by (simp add: xclockdac_rates_def rate_frequencies_eq)

lemma set_rate_scan_hit:
  "e \<in> set rate_entries \<Longrightarrow> set_rate_scan xclockdac_rates (out e) = Some e"
  by (auto simp add: xclockdac_rates_def rate_entries_eq)

lemma recalc_rate_scan_table:
  "recalc_rate_scan xclockdac_rates v =
    Some (if v = 0x04 then 11025 else if v = 0x0C then 22050 else if v = 0x03 then 44100
          else if v = 0x0B then 48000 else if v = 0x02 then 88200 else if v = 0x0A then 96000
          else if v = 0x01 then 176400 else if v = 0x09 then 192000 else 0)"
  by (simp add: xclockdac_rates_def)

lemma round_rate_below:
  "rate < 11025 \<Longrightarrow> xclockdac_round_rate rate parent_rate = Some 11025"
  by (simp add: xclockdac_round_rate_def xclockdac_rates_def Let_def word_as_nat)

lemma round_rate_above:
  "192000 < rate \<Longrightarrow> xclockdac_round_rate rate parent_rate = Some 192000"
  by (simp add: xclockdac_round_rate_def xclockdac_rates_def Let_def word_as_nat)

lemma round_rate_exact:
  "f \<in> set rate_frequencies \<Longrightarrow> xclockdac_round_rate f parent_rate = Some f"
  by (auto simp add: xclockdac_round_rate_def xclockdac_rates_def rate_frequencies_eq)

lemma round_rate_in_table:
  "\<exists>y \<in> set rate_frequencies. xclockdac_round_rate rate parent_rate = Some y"
  by (simp add: xclockdac_round_rate_def xclockdac_rates_def Let_def rate_frequencies_eq
      word_as_nat)

lemma round_rate_between:
  assumes "Suc i < length rate_frequencies"
    and "rate_frequencies ! i < rate" and "rate < rate_frequencies ! Suc i"
  shows "xclockdac_round_rate rate parent_rate =
    Some (if unat rate
             < unat (rate_frequencies ! i)
               + (unat (rate_frequencies ! Suc i) - unat (rate_frequencies ! i)) div 2
          then rate_frequencies ! i else rate_frequencies ! Suc i)"
proof -
  note unfold = rate_frequencies_eq xclockdac_round_rate_def xclockdac_rates_def Let_def
    word_as_nat
  from assms(1) have "i < 7"
    by (simp add: rate_frequencies_eq)
  then consider "i = 0" | "i = 1" | "i = 2" | "i = 3" | "i = 4" | "i = 5" | "i = 6"
    by linarith
  then show ?thesis
  proof cases
    case 1
    with assms(2,3) show ?thesis by (simp add: unfold)
  next
    case 2
    with assms(2,3) show ?thesis by (simp add: unfold)
  next
    case 3
    with assms(2,3) show ?thesis by (simp add: unfold)
  next
    case 4
    with assms(2,3) show ?thesis by (simp add: unfold)
  next
    case 5
    with assms(2,3) show ?thesis by (simp add: unfold)
  next
    case 6
    with assms(2,3) show ?thesis by (simp add: unfold)
  next
    case 7
    with assms(2,3) show ?thesis by (simp add: unfold)
  qed
qed

subsection \<open>The register write\<close>

lemma write_reg_caches_first:
  "reg_value (snd (xclockdac_write_reg regmap_write drvdata v)) = ucast v"
  by (simp add: xclockdac_write_reg_def Let_def split: prod.split)

lemma write_reg_status:
  "fst (xclockdac_write_reg regmap_write drvdata v) =
    (let ret = fst (regmap_write SMBUS_DAC_SET (ucast v) (regmap drvdata))
     in if ret < 0 then ret else 0)"
  by (simp add: xclockdac_write_reg_def Let_def split: prod.split)

subsection \<open>The negotiation constraints\<close>

lemma negotiable_after_constraint:
  "negotiable (snd (snd_pcm_hw_constraint_list runtime cond var l)) var' v =
    (negotiable runtime var' v \<and> rule_accepts var' v (var, l))"
  by (simp add: negotiable_def snd_pcm_hw_constraint_list_def)

lemma xclockdac_constraints_accept:
  "rule_accepts SNDRV_PCM_HW_PARAM_RATE v (SNDRV_PCM_HW_PARAM_RATE, xclockdac_constraints) =
    (v \<in> set snd_xclockdac_rates)"
  by (simp add: rule_accepts_def xclockdac_constraints_def)

lemma dai_constraints_accept:
  "rule_accepts SNDRV_PCM_HW_PARAM_RATE v (SNDRV_PCM_HW_PARAM_RATE, dai_constraints) =
    (v \<in> set tda1541a_dai_rates)"
  by (simp add: rule_accepts_def dai_constraints_def)

lemma startup_negotiable:
  "negotiable (snd (snd_rpi_xclockdac_startup runtime)) SNDRV_PCM_HW_PARAM_RATE v =
    (negotiable runtime SNDRV_PCM_HW_PARAM_RATE v \<and> v \<in> set snd_xclockdac_rates)"
  by (simp add: snd_rpi_xclockdac_startup_def negotiable_def snd_pcm_hw_constraint_list_def
      xclockdac_constraints_accept)

lemma snd_rates_match_table: "map unat snd_xclockdac_rates = map unat rate_frequencies"
  by (simp add: snd_xclockdac_rates_def rate_frequencies_eq)

subsection \<open>The probes\<close>

lemma set_rate_write_failure_caches_code:
  assumes "e \<in> set rate_entries"
    and "fst (regmap_write SMBUS_DAC_SET (ucast (entry_reg_value e)) (regmap drvdata)) < 0"
  shows "\<exists>ret drvdata'.
      xclockdac_set_rate regmap_write drvdata (out e) parent_rate = Some (ret, drvdata')
      \<and> ret < 0 \<and> reg_value drvdata' = ucast (entry_reg_value e)"
proof -
  from assms(1) have "out e \<noteq> 0"
    by (auto simp add: rate_entries_eq)
  with assms show ?thesis
    by (simp add: xclockdac_set_rate_def set_rate_scan_hit xclockdac_write_reg_def Let_def
        case_prod_beta)
qed

lemma snd_probe_defers_without_i2s_node:
  "of_node env \<Longrightarrow> \<not> of_parse_phandle env \<Longrightarrow>
    snd_rpi_xclockdac_probe env sclk = (- EPROBE_DEFER, sclk)"
  by (simp add: snd_rpi_xclockdac_probe_def)

lemma snd_probe_defers_with_card:
  "of_node env \<longrightarrow> of_parse_phandle env \<Longrightarrow>
    devm_snd_soc_register_card env = - EPROBE_DEFER \<Longrightarrow>
    snd_rpi_xclockdac_probe env sclk = (- EPROBE_DEFER, sclk)"
  by (auto simp add: snd_rpi_xclockdac_probe_def EPROBE_DEFER_def)

lemma snd_probe_clock_error:
  "of_node env \<Longrightarrow> of_parse_phandle env \<Longrightarrow> devm_snd_soc_register_card env = 0 \<Longrightarrow>
    snd_devm_clk_get env = ERR_PTR e \<Longrightarrow>
    snd_rpi_xclockdac_probe env sclk = (- ENODEV, ERR_PTR (- ENOENT))"
  by (simp add: snd_rpi_xclockdac_probe_def EPROBE_DEFER_def)

lemma snd_probe_drops_default_rate_status:
  "of_node env \<Longrightarrow> of_parse_phandle env \<Longrightarrow> devm_snd_soc_register_card env = 0 \<Longrightarrow>
    snd_devm_clk_get env = Ptr c \<Longrightarrow>
    fst (snd_rpi_xclockdac_probe env sclk) = 0"
  by (simp add: snd_rpi_xclockdac_probe_def EPROBE_DEFER_def case_prod_beta)

section \<open>The claims\<close>

text \<open>
  C1. The claim: when the register write issued by \<open>set_rate\<close> fails, the cached
  register value, and with it the rate that \<open>recalc_rate\<close> reports, keeps its value
  from before the call. The driver assigns the cache before it calls the transport, so
  the claim fails on the code: with the cache at the code of 44100 Hz and a transport
  whose write fails with \<open>-EIO\<close>, \<open>set_rate(48000)\<close> returns \<open>-EIO\<close> and leaves the
  cache at \<open>0x0B\<close>, which \<open>recalc_rate\<close> reports as 48000 Hz.
\<close>

theorem set_rate_failed_write_changes_cache:
  "xclockdac_recalc_rate \<lparr>regmap = (), reg_value = 0x03\<rparr> 0 = Some 44100
   \<and> xclockdac_set_rate (\<lambda>reg v rm. (- EIO, rm)) \<lparr>regmap = (), reg_value = 0x03\<rparr> 48000 0
       = Some (- EIO, \<lparr>regmap = (), reg_value = 0x0B\<rparr>)
   \<and> xclockdac_recalc_rate \<lparr>regmap = (), reg_value = 0x0B\<rparr> 0 = Some 48000"
  by (simp add: xclockdac_recalc_rate_def recalc_rate_scan_table xclockdac_set_rate_def
      xclockdac_rates_def xclockdac_write_reg_def EIO_def)

text \<open>
  C2. The claim: a failed application of the default rate at attach time is reported
  upward but the attach still succeeds and the device is Attached. The default rate is
  applied at attach time in two places, and the claim fails in both. The probe of the
  clock driver reports the failure but returns \<open>-EINVAL\<close>, so the device is not
  Attached: in the first probe below every step succeeds but \<open>clk_set_rate\<close>, which
  fails with \<open>-EIO\<close>. The probe of the machine driver succeeds but drops the status
  of \<open>clk_set_rate\<close>: in the second probe below \<open>clk_set_rate\<close> fails with \<open>-EIO\<close>
  and the probe returns 0 with the same state as when \<open>clk_set_rate\<close> succeeds, so
  nothing is reported upward.
\<close>

theorem probe_default_rate_failure_counterexample:
  "fst (clk_set_rate
         \<lparr>devm_kzalloc = True, devm_clk_get = Inr (), devm_regmap_init_i2c = Inr (),
          regmap_read = (\<lambda>reg rm. (0, 0x03)), devm_clk_register = Inr (),
          of_clk_add_provider = 0, clk_set_rate = (\<lambda>d r. (- EIO, d))\<rparr>
         \<lparr>regmap = (), reg_value = 0x03\<rparr> DEFAULT_RATE) \<noteq> 0
   \<and> \<not> attached (fst (xclockdac_i2c_probe
         \<lparr>devm_kzalloc = True, devm_clk_get = Inr (), devm_regmap_init_i2c = Inr (),
          regmap_read = (\<lambda>reg rm. (0, 0x03)), devm_clk_register = Inr (),
          of_clk_add_provider = 0, clk_set_rate = (\<lambda>d r. (- EIO, d))\<rparr>))
   \<and> snd_rpi_xclockdac_probe
         \<lparr>of_node = True, of_parse_phandle = True, devm_snd_soc_register_card = 0,
          snd_devm_clk_get = Ptr (), snd_clk_set_rate = (\<lambda>c r. (- EIO, c))\<rparr> NULL
       = (0, Ptr ())
   \<and> snd_rpi_xclockdac_probe
         \<lparr>of_node = True, of_parse_phandle = True, devm_snd_soc_register_card = 0,
          snd_devm_clk_get = Ptr (), snd_clk_set_rate = (\<lambda>c r. (- EIO, c))\<rparr> NULL
       = snd_rpi_xclockdac_probe
           \<lparr>of_node = True, of_parse_phandle = True, devm_snd_soc_register_card = 0,
            snd_devm_clk_get = Ptr (), snd_clk_set_rate = (\<lambda>c r. (0, c))\<rparr> NULL"
  by (simp add: xclockdac_i2c_probe_def snd_rpi_xclockdac_probe_def attached_def EIO_def
      EINVAL_def EPROBE_DEFER_def)

text \<open>
  C2, amended: what a failed application of the default rate (44100 Hz) at attach time
  does depends on the attach that applies it. In the probe of the clock driver, when
  the application is reached (every earlier step has succeeded) and \<open>clk_set_rate\<close>
  fails with any status, the failure is reported upward as \<open>-EINVAL\<close> and the attach
  fails: the device is not Attached. In the probe of the machine driver, when the
  application is reached and \<open>clk_set_rate\<close> fails with any status, the status is
  dropped: the probe returns 0, so nothing is reported upward, the device is Attached,
  and the clock pointer it keeps is the valid one, with which a stream can program the
  clock later.
\<close>

theorem default_rate_failure_at_attach:
  "(devm_kzalloc env \<and> devm_clk_get env = Inr c \<and> devm_regmap_init_i2c env = Inr rm
      \<and> regmap_read env SMBUS_DAC_SET rm = (r, v) \<and> \<not> r < 0
      \<and> devm_clk_register env = Inr c' \<and> of_clk_add_provider env = 0
      \<and> fst (clk_set_rate env \<lparr>regmap = rm, reg_value = v\<rparr> DEFAULT_RATE) \<noteq> 0
    \<longrightarrow> xclockdac_i2c_probe env = (- EINVAL, None)
        \<and> \<not> attached (fst (xclockdac_i2c_probe env)))
   \<and> (of_node senv \<and> of_parse_phandle senv \<and> devm_snd_soc_register_card senv = 0
      \<and> snd_devm_clk_get senv = Ptr k
      \<and> fst (snd_clk_set_rate senv k DEFAULT_RATE) \<noteq> 0
    \<longrightarrow> snd_rpi_xclockdac_probe senv sclk
          = (0, Ptr (snd (snd_clk_set_rate senv k DEFAULT_RATE)))
        \<and> attached (fst (snd_rpi_xclockdac_probe senv sclk))
        \<and> \<not> IS_ERR (snd (snd_rpi_xclockdac_probe senv sclk)))"
proof (intro conjI impI)
  assume clk: "devm_kzalloc env \<and> devm_clk_get env = Inr c \<and> devm_regmap_init_i2c env = Inr rm
      \<and> regmap_read env SMBUS_DAC_SET rm = (r, v) \<and> \<not> r < 0
      \<and> devm_clk_register env = Inr c' \<and> of_clk_add_provider env = 0
      \<and> fst (clk_set_rate env \<lparr>regmap = rm, reg_value = v\<rparr> DEFAULT_RATE) \<noteq> 0"
  then show fails: "xclockdac_i2c_probe env = (- EINVAL, None)"
    by (simp add: xclockdac_i2c_probe_def case_prod_beta)
  then show "\<not> attached (fst (xclockdac_i2c_probe env))"
    by (simp add: attached_def EINVAL_def)
next
  assume snd: "of_node senv \<and> of_parse_phandle senv \<and> devm_snd_soc_register_card senv = 0
      \<and> snd_devm_clk_get senv = Ptr k
      \<and> fst (snd_clk_set_rate senv k DEFAULT_RATE) \<noteq> 0"
  then show result: "snd_rpi_xclockdac_probe senv sclk
      = (0, Ptr (snd (snd_clk_set_rate senv k DEFAULT_RATE)))"
    by (simp add: snd_rpi_xclockdac_probe_def EPROBE_DEFER_def case_prod_beta)
  then show "attached (fst (snd_rpi_xclockdac_probe senv sclk))"
    by (simp add: attached_def)
  from result show "\<not> IS_ERR (snd (snd_rpi_xclockdac_probe senv sclk))"
    by simp
qed

theorem default_rate_failure_at_attach_witness:
  "xclockdac_i2c_probe
     \<lparr>devm_kzalloc = True, devm_clk_get = Inr (), devm_regmap_init_i2c = Inr (),
      regmap_read = (\<lambda>reg rm. (0, 0x03)), devm_clk_register = Inr (),
      of_clk_add_provider = 0, clk_set_rate = (\<lambda>d r. (- EIO, d))\<rparr>
      = (- EINVAL, None :: unit clk_xclockdac_drvdata option)
   \<and> \<not> attached (fst (xclockdac_i2c_probe
         \<lparr>devm_kzalloc = True, devm_clk_get = Inr (), devm_regmap_init_i2c = Inr (),
          regmap_read = (\<lambda>reg rm. (0, 0x03)), devm_clk_register = Inr (),
          of_clk_add_provider = 0, clk_set_rate = (\<lambda>d r. (- EIO, d))\<rparr>))
   \<and> snd_rpi_xclockdac_probe
         \<lparr>of_node = True, of_parse_phandle = True, devm_snd_soc_register_card = 0,
          snd_devm_clk_get = Ptr (), snd_clk_set_rate = (\<lambda>c r. (- EIO, c))\<rparr> NULL
       = (0, Ptr ())
   \<and> attached (fst (snd_rpi_xclockdac_probe
         \<lparr>of_node = True, of_parse_phandle = True, devm_snd_soc_register_card = 0,
          snd_devm_clk_get = Ptr (), snd_clk_set_rate = (\<lambda>c r. (- EIO, c))\<rparr> NULL))"
  using default_rate_failure_at_attach
    [of "\<lparr>devm_kzalloc = True, devm_clk_get = Inr (), devm_regmap_init_i2c = Inr (),
          regmap_read = (\<lambda>reg rm. (0, 0x03)), devm_clk_register = Inr (),
          of_clk_add_provider = 0, clk_set_rate = (\<lambda>d r. (- EIO, d))\<rparr>"
        "()" "()" 0 "0x03" "()"
        "\<lparr>of_node = True, of_parse_phandle = True, devm_snd_soc_register_card = 0,
          snd_devm_clk_get = Ptr (), snd_clk_set_rate = (\<lambda>c r. (- EIO, c))\<rparr>"
        "()" NULL]
  by (simp add: EIO_def EINVAL_def attached_def)

text \<open>
  C3. For every requested frequency that is not a frequency of the table,
  \<open>set_rate\<close> returns \<open>-EINVAL\<close> and the driver data it leaves, transport state
  included, is the driver data it was given, whatever the transport's write does: no
  register write is issued, \<open>recalc_rate\<close> reports what it reported before, and
  nothing is rounded.
\<close>

theorem set_rate_rejects_unsupported_rate:
  assumes "rate \<notin> set rate_frequencies"
  shows "xclockdac_set_rate regmap_write drvdata rate parent_rate = Some (- EINVAL, drvdata)"
  using assms by (simp add: xclockdac_set_rate_def set_rate_scan_miss)

theorem set_rate_rejects_unsupported_rate_witness:
  "(45000 :: ulong) \<notin> set rate_frequencies
   \<and> xclockdac_set_rate (\<lambda>reg v written. (0, (reg, v) # written))
        \<lparr>regmap = [], reg_value = 0x03\<rparr> 45000 0
       = Some (- EINVAL, \<lparr>regmap = [], reg_value = 0x03\<rparr>)"
  using set_rate_rejects_unsupported_rate
    [of 45000 "\<lambda>reg v written. (0, (reg, v) # written)" "\<lparr>regmap = [], reg_value = 0x03\<rparr>" 0]
  by (simp add: rate_frequencies_eq)

text \<open>
  C4. For every requested rate strictly between two adjacent frequencies of the table,
  \<open>prev\<close> at index \<open>i\<close> and \<open>curr\<close> at index \<open>i + 1\<close>, \<open>round_rate\<close> returns \<open>prev\<close>
  when \<open>prev + (curr - prev) / 2\<close>, computed on the natural numbers with floor
  division, is greater than the request, and \<open>curr\<close> otherwise. The exact midpoint goes
  to the higher neighbour: \<open>round_rate(16537) = 22050\<close>.
\<close>

theorem round_rate_midpoint_rule:
  assumes "Suc i < length rate_frequencies"
    and "rate_frequencies ! i < rate" and "rate < rate_frequencies ! Suc i"
  shows "xclockdac_round_rate rate parent_rate =
      Some (if unat (rate_frequencies ! i)
                 + (unat (rate_frequencies ! Suc i) - unat (rate_frequencies ! i)) div 2
               > unat rate
            then rate_frequencies ! i else rate_frequencies ! Suc i)
    \<and> xclockdac_round_rate 16537 parent_rate = Some 22050"
proof
  show "xclockdac_round_rate rate parent_rate =
      Some (if unat (rate_frequencies ! i)
                 + (unat (rate_frequencies ! Suc i) - unat (rate_frequencies ! i)) div 2
               > unat rate
            then rate_frequencies ! i else rate_frequencies ! Suc i)"
    using round_rate_between [OF assms] by simp
  have "xclockdac_round_rate 16537 parent_rate =
      Some (if unat (16537 :: ulong)
               < unat (rate_frequencies ! 0)
                 + (unat (rate_frequencies ! Suc 0) - unat (rate_frequencies ! 0)) div 2
            then rate_frequencies ! 0 else rate_frequencies ! Suc 0)"
    by (rule round_rate_between) (simp_all add: rate_frequencies_eq)
  then show "xclockdac_round_rate 16537 parent_rate = Some 22050"
    by (simp add: rate_frequencies_eq)
qed

theorem round_rate_midpoint_rule_witness:
  "Suc 0 < length rate_frequencies
   \<and> rate_frequencies ! 0 < 16536 \<and> 16536 < rate_frequencies ! Suc 0
   \<and> xclockdac_round_rate 16536 0 = Some 11025
   \<and> xclockdac_round_rate 16537 0 = Some 22050"
  using round_rate_midpoint_rule [of 0 16536 0]
  by (simp add: rate_frequencies_eq)

text \<open>
  C5. The lowest supported frequency is 11025 and the highest 192000; for every
  requested rate below the lowest, \<open>round_rate\<close> returns 11025, and for every
  requested rate above the highest it returns 192000.
\<close>

theorem round_rate_clamps:
  "hd rate_frequencies = 11025 \<and> last rate_frequencies = 192000
   \<and> (rate < hd rate_frequencies \<longrightarrow> xclockdac_round_rate rate parent_rate = Some 11025)
   \<and> (last rate_frequencies < rate \<longrightarrow> xclockdac_round_rate rate parent_rate = Some 192000)"
  by (simp add: rate_frequencies_eq round_rate_below round_rate_above)

theorem round_rate_clamps_witness:
  "(8000 :: ulong) < hd rate_frequencies \<and> xclockdac_round_rate 8000 0 = Some 11025
   \<and> last rate_frequencies < (384000 :: ulong) \<and> xclockdac_round_rate 384000 0 = Some 192000"
  using round_rate_clamps [of 8000 0] round_rate_clamps [of 384000 0]
  by (simp add: rate_frequencies_eq)

text \<open>
  C6. \<open>round_rate\<close> returns for every rate (also for 0): it never runs off the table
  or dereferences \<open>NULL\<close>, and its result is a frequency of the table. Each of the 8
  frequencies of the table is a fixed point.
\<close>

theorem round_rate_total_and_fixed_points:
  "(\<exists>y \<in> set rate_frequencies. xclockdac_round_rate rate parent_rate = Some y)
   \<and> length rate_frequencies = 8
   \<and> (\<forall>f \<in> set rate_frequencies. xclockdac_round_rate f parent_rate = Some f)"
  using round_rate_in_table [of rate parent_rate]
  by (simp add: round_rate_exact) (simp add: rate_frequencies_eq)

theorem round_rate_total_and_fixed_points_witness:
  "xclockdac_round_rate 1 0 = Some 11025
   \<and> (48000 :: ulong) \<in> set rate_frequencies \<and> xclockdac_round_rate 48000 0 = Some 48000"
  using round_rate_total_and_fixed_points [of 1 0] round_rate_below [of 1 0]
  by (simp add: rate_frequencies_eq)

text \<open>
  C7. \<open>recalc_rate\<close> reads the low byte of the cached register value. When that code
  is not in the table it returns 0, which is not a supported frequency, and it does not
  fail; when the code is that of an entry of the table it returns the entry's
  frequency.
\<close>

theorem recalc_rate_unrecognized_or_entry:
  "(ucast (reg_value drvdata) \<notin> set rate_codes \<longrightarrow>
      xclockdac_recalc_rate drvdata parent_rate = Some 0)
   \<and> 0 \<notin> set rate_frequencies
   \<and> (\<forall>e \<in> set rate_entries. ucast (reg_value drvdata) = entry_reg_value e \<longrightarrow>
        xclockdac_recalc_rate drvdata parent_rate = Some (out e))"
  by (simp add: xclockdac_recalc_rate_def recalc_rate_scan_table rate_codes_eq
      rate_frequencies_eq rate_entries_eq)

theorem recalc_rate_unrecognized_or_entry_witness:
  "(ucast (0xFF :: uint) :: u8) \<notin> set rate_codes
   \<and> xclockdac_recalc_rate \<lparr>regmap = (), reg_value = 0xFF\<rparr> 0 = Some 0
   \<and> \<lparr>out = 48000, entry_reg_value = 0x0B\<rparr> \<in> set rate_entries
   \<and> xclockdac_recalc_rate \<lparr>regmap = (), reg_value = 0x0B\<rparr> 0 = Some 48000"
  using recalc_rate_unrecognized_or_entry [of "\<lparr>regmap = (), reg_value = 0xFF\<rparr>" 0]
    recalc_rate_unrecognized_or_entry [of "\<lparr>regmap = (), reg_value = 0x0B\<rparr>" 0]
  by (simp add: rate_codes_eq rate_entries_eq)

text \<open>
  C8. The claim: whenever an upstream dependency of the machine driver (the I2S
  controller, the clock provider) is not ready, its probe returns the transient
  \<open>-EPROBE_DEFER\<close>. The probe does so for a missing I2S controller node and for a
  deferred card registration, but when \<open>devm_clk_get\<close> answers \<open>-EPROBE_DEFER\<close>
  (the clock provider has not been probed yet) it returns the permanent \<open>-ENODEV\<close>.
\<close>

theorem snd_probe_clock_not_ready_is_permanent:
  "snd_rpi_xclockdac_probe
     \<lparr>of_node = True, of_parse_phandle = True, devm_snd_soc_register_card = 0,
      snd_devm_clk_get = ERR_PTR (- EPROBE_DEFER), snd_clk_set_rate = (\<lambda>c r. (0, c))\<rparr>
     (NULL :: unit ptr)
    = (- ENODEV, ERR_PTR (- ENOENT))
   \<and> - ENODEV \<noteq> - EPROBE_DEFER"
  by (simp add: snd_rpi_xclockdac_probe_def ENODEV_def EPROBE_DEFER_def)

text \<open>
  C9. The constraint that \<open>snd_rpi_xclockdac_startup\<close> installs restricts the
  negotiable rates to the 8 frequencies of the list: on a runtime with no constraint
  yet, the negotiable rates after it are exactly these 8, and on any runtime a rate is
  negotiable after it exactly when it was before and is one of the 8. The list has the
  frequencies of the clock driver's table, and the codec's own constraint, installed
  by \<open>tda1541a_startup\<close>, is the same set.
\<close>

theorem startup_constrains_rates_to_table:
  "{v. negotiable (snd (snd_rpi_xclockdac_startup \<lparr>hw_rules = []\<rparr>)) SNDRV_PCM_HW_PARAM_RATE v}
     = {11025, 22050, 44100, 48000, 88200, 96000, 176400, 192000}
   \<and> negotiable (snd (snd_rpi_xclockdac_startup runtime)) SNDRV_PCM_HW_PARAM_RATE v
     = (negotiable runtime SNDRV_PCM_HW_PARAM_RATE v
        \<and> v \<in> {11025, 22050, 44100, 48000, 88200, 96000, 176400, 192000})
   \<and> fst (snd_rpi_xclockdac_startup runtime) = 0
   \<and> map unat (cl_list xclockdac_constraints) = map unat rate_frequencies
   \<and> cl_count xclockdac_constraints = 8
   \<and> {v. negotiable (snd (tda1541a_startup (snd (snd_rpi_xclockdac_startup \<lparr>hw_rules = []\<rparr>))))
            SNDRV_PCM_HW_PARAM_RATE v}
     = {11025, 22050, 44100, 48000, 88200, 96000, 176400, 192000}"
proof -
  have rates: "set snd_xclockdac_rates = {11025, 22050, 44100, 48000, 88200, 96000, 176400, 192000}"
    by (simp add: snd_xclockdac_rates_def)
  have dai: "set tda1541a_dai_rates = set snd_xclockdac_rates"
    by (simp add: tda1541a_dai_rates_def snd_xclockdac_rates_def)
  have empty: "negotiable \<lparr>hw_rules = []\<rparr> SNDRV_PCM_HW_PARAM_RATE w" for w
    by (simp add: negotiable_def)
  have one: "{v. negotiable (snd (snd_rpi_xclockdac_startup \<lparr>hw_rules = []\<rparr>)) SNDRV_PCM_HW_PARAM_RATE v}
      = set snd_xclockdac_rates"
    by (simp add: startup_negotiable empty)
  have two: "{v. negotiable (snd (tda1541a_startup (snd (snd_rpi_xclockdac_startup \<lparr>hw_rules = []\<rparr>))))
            SNDRV_PCM_HW_PARAM_RATE v} = set snd_xclockdac_rates"
    by (simp add: tda1541a_startup_def negotiable_after_constraint dai_constraints_accept
        startup_negotiable empty dai)
  have ret: "fst (snd_rpi_xclockdac_startup runtime) = 0"
    by (simp add: snd_rpi_xclockdac_startup_def split: prod.split)
  have tab: "map unat (cl_list xclockdac_constraints) = map unat rate_frequencies"
    by (simp add: xclockdac_constraints_def snd_rates_match_table)
  have cnt: "cl_count xclockdac_constraints = 8"
    by (simp add: xclockdac_constraints_def snd_xclockdac_rates_def)
  show ?thesis
    using one two ret tab cnt startup_negotiable [of runtime v]
    by (simp only: rates)
qed

text \<open>
  C10. \<open>tda1541a_hw_params\<close> returns 0 when the sample width is 16 bits and
  \<open>-EINVAL\<close> for every other width, so it accepts a parameter set exactly when its
  width is 16: 24-bit and 32-bit parameter sets are rejected.
\<close>

theorem hw_params_accepts_only_16_bit:
  "fst (tda1541a_hw_params priv params) = (if params_width params = 16 then 0 else - EINVAL)
   \<and> (fst (tda1541a_hw_params priv params) = 0) = (params_width params = 16)
   \<and> fst (tda1541a_hw_params priv (params\<lparr>params_width := 24\<rparr>)) = - EINVAL
   \<and> fst (tda1541a_hw_params priv (params\<lparr>params_width := 32\<rparr>)) = - EINVAL"
  by (simp add: tda1541a_hw_params_def Let_def EINVAL_def)

end
